theory Spec2Isabelle
  imports Main "HOL-Library.Word"
begin

section \<open>Data model of message.go\<close>

text \<open>
  Go's \<open>[]byte\<close> and \<open>string\<close> are both sequences of bytes; they are modelled as lists of
  \<open>char\<close> (an 8-bit value). The null byte is \<open>CHR 0x00\<close>.
\<close>

type_synonym bytes = "char list"

text \<open>
  The error values a call can return: the four package-level values declared at the top of
  message.go, \<open>io.EOF\<close> and \<open>io.ErrUnexpectedEOF\<close> of the standard library (returned through
  \<open>binary.Read\<close>), the \<open>fmt.Errorf("Unexpected type %c", tt)\<close> of the typed reads, the error of a
  pattern that does not compile, and the two errors built by the dispatcher.
\<close>

datatype error =
    ErrIndexOutOfBounds
  | ErrInvalidTypeTag
  | ErrNilWriter
  | ErrParse
  | EOF
  | ErrUnexpectedEOF
  | ErrUnexpectedType char
  | ErrInvalidPattern
  | ErrUnsupportedType
  | ErrInvokeBundle error

text \<open>
  A call either panics at run time (an index or a slice bound out of range, a negative
  \<open>make\<close> length), returns a non-nil error, or returns a value.
\<close>

datatype 'a outcome = Panic | Failed error | Ok 'a

text \<open>
  The struct \<open>Message\<close>. The field \<open>argbuf\<close> is a \<open>*bytes.Buffer\<close>; the model keeps its unread
  bytes, which is what \<open>Len\<close>, \<open>Bytes\<close>, \<open>ReadByte\<close> and \<open>Read\<close> observe. A nil slice is the
  empty list.
\<close>

record Message =
  address :: bytes
  typetag :: bytes
  argbuf :: bytes
  ttReadIndex :: nat
  senderAddress :: "string option"

text \<open>
  Modelled from the spec: the type-tag constants \<open>typetagPrefix\<close>, \<open>typetagInt\<close>,
  \<open>typetagFloat\<close>, \<open>typetagString\<close>, \<open>typetagBlob\<close>, \<open>typetagTrue\<close> and \<open>typetagFalse\<close> are declared
  outside message.go; their values are the tag characters of the spec's table of type-tag
  characters, and \<open>byteOrder\<close> is big-endian ("all integers are big-endian").
\<close>

definition typetagPrefix :: char where "typetagPrefix = CHR '',''"
definition typetagInt :: char where "typetagInt = CHR ''i''"
definition typetagFloat :: char where "typetagFloat = CHR ''f''"
definition typetagString :: char where "typetagString = CHR ''s''"
definition typetagBlob :: char where "typetagBlob = CHR ''b''"
definition typetagTrue :: char where "typetagTrue = CHR ''T''"
definition typetagFalse :: char where "typetagFalse = CHR ''F''"

lemmas typetag_defs = typetagPrefix_def typetagInt_def typetagFloat_def typetagString_def
  typetagBlob_def typetagTrue_def typetagFalse_def

subsection \<open>Big-endian 32-bit values\<close>

text \<open>\<open>binary.Write(buf, byteOrder, val)\<close> of an \<open>int32\<close>: four bytes, most significant first.\<close>

definition PutUint32 :: "32 word \<Rightarrow> bytes" where
  "PutUint32 v =
     [char_of (unat (drop_bit 24 v)), char_of (unat (drop_bit 16 v)),
      char_of (unat (drop_bit 8 v)), char_of (unat v)]"

definition Uint32 :: "bytes \<Rightarrow> 32 word" where
  "Uint32 bs =
     push_bit 24 (of_char (bs ! 0)) + push_bit 16 (of_char (bs ! 1)) +
     push_bit 8 (of_char (bs ! 2)) + of_char (bs ! 3)"

text \<open>
  \<open>binary.Read(msg.argbuf, byteOrder, &val)\<close> for a 4-byte value goes through \<open>io.ReadFull\<close>:
  on an empty buffer it returns \<open>io.EOF\<close>; on one to three bytes it consumes them and returns
  \<open>io.ErrUnexpectedEOF\<close>; otherwise it consumes four bytes. The result carries the buffer
  that is left.
\<close>

definition binary_Read :: "bytes \<Rightarrow> (error + 32 word) \<times> bytes" where
  "binary_Read buf =
     (if buf = [] then (Inl EOF, buf)
      else if length buf < 4 then (Inl ErrUnexpectedEOF, [])
      else (Inr (Uint32 (take 4 buf)), drop 4 buf))"

subsection \<open>The padding loops\<close>

text \<open>
  \<open>for j := i; j%4 != 0; j++ { WriteByte(0) }\<close>, the loop of \<open>WriteString\<close>, \<open>WriteBlob\<close> and
  \<open>bytes\<close>: the null bytes it writes.
\<close>

function padding :: "nat \<Rightarrow> bytes" where
  "padding j = (if j mod 4 \<noteq> 0 then CHR 0x00 # padding (j + 1) else [])"
  by pat_completeness auto
termination
  by (relation "measure (\<lambda>j. (4 - j mod 4) mod 4)") (auto simp: mod_Suc)

declare padding.simps [simp del]

text \<open>\<open>for i%4 != 0 { i++ }\<close> of \<open>parseArguments\<close>.\<close>

function align :: "nat \<Rightarrow> nat" where
  "align i = (if i mod 4 \<noteq> 0 then align (i + 1) else i)"
  by pat_completeness auto
termination
  by (relation "measure (\<lambda>j. (4 - j mod 4) mod 4)") (auto simp: mod_Suc)

declare align.simps [simp del]

text \<open>
  The inner loop of \<open>ReadString\<close>: \<open>for j := i; j%4 != 0; j++ { ReadByte() }\<close>, where an
  \<open>io.EOF\<close> of \<open>ReadByte\<close> is ignored. It returns the buffer that is left.
\<close>

function skip_padding :: "nat \<Rightarrow> bytes \<Rightarrow> bytes" where
  "skip_padding j buf =
     (if j mod 4 \<noteq> 0
      then skip_padding (j + 1) (case buf of [] \<Rightarrow> [] | _ # rest \<Rightarrow> rest)
      else buf)"
  by pat_completeness auto
termination
  by (relation "measure (\<lambda>(j, buf). (4 - j mod 4) mod 4)") (auto simp: mod_Suc)

declare skip_padding.simps [simp del]

text \<open>
  The scanning loops of \<open>parseMessage\<close> and \<open>parseArguments\<close>:
  \<open>for i < n { if data[i] == c { ...; break }; i++ }\<close>. The result is the final \<open>i\<close>: the index
  of the first \<open>c\<close> at or after the start, or \<open>n\<close> when there is none.
\<close>

function scan :: "char \<Rightarrow> bytes \<Rightarrow> nat \<Rightarrow> nat" where
  "scan c data i =
     (if i < length data then (if data ! i = c then i else scan c data (i + 1)) else i)"
  by pat_completeness auto
termination
  by (relation "measure (\<lambda>(c, data, i). length data - i)") auto

declare scan.simps [simp del]

section \<open>Messages\<close>

definition NewMessage :: "bytes \<Rightarrow> Message" where
  "NewMessage addr =
     \<lparr>address = addr, typetag = [typetagPrefix], argbuf = [], ttReadIndex = 1,
      senderAddress = None\<rparr>"

subsection \<open>Typed reads\<close>

text \<open>
  Every typed read starts with \<open>tt := msg.typetag[msg.ttReadIndex]\<close>, which panics when the
  index is not below the length of the slice. A read returns its outcome and the message
  as the call leaves it.
\<close>

definition ReadInt32 :: "Message \<Rightarrow> 32 word outcome \<times> Message" where
  "ReadInt32 msg =
     (if \<not> ttReadIndex msg < length (typetag msg) then (Panic, msg)
      else let tt = typetag msg ! ttReadIndex msg in
        if tt \<noteq> typetagInt then (Failed (ErrUnexpectedType tt), msg)
        else (case binary_Read (argbuf msg) of
                (Inl err, buf) \<Rightarrow> (Failed err, msg\<lparr>argbuf := buf\<rparr>)
              | (Inr val, buf) \<Rightarrow>
                  (Ok val, msg\<lparr>argbuf := buf, ttReadIndex := ttReadIndex msg + 1\<rparr>)))"

text \<open>A \<open>float32\<close> is carried as its 32-bit IEEE-754 pattern.\<close>

definition ReadFloat32 :: "Message \<Rightarrow> 32 word outcome \<times> Message" where
  "ReadFloat32 msg =
     (if \<not> ttReadIndex msg < length (typetag msg) then (Panic, msg)
      else let tt = typetag msg ! ttReadIndex msg in
        if tt \<noteq> typetagFloat then (Failed (ErrUnexpectedType tt), msg)
        else (case binary_Read (argbuf msg) of
                (Inl err, buf) \<Rightarrow> (Failed err, msg\<lparr>argbuf := buf\<rparr>)
              | (Inr val, buf) \<Rightarrow>
                  (Ok val, msg\<lparr>argbuf := buf, ttReadIndex := ttReadIndex msg + 1\<rparr>)))"

definition ReadBool :: "Message \<Rightarrow> bool outcome \<times> Message" where
  "ReadBool msg =
     (if \<not> ttReadIndex msg < length (typetag msg) then (Panic, msg)
      else let tt = typetag msg ! ttReadIndex msg in
        if tt \<noteq> typetagTrue \<and> tt \<noteq> typetagFalse then (Failed (ErrUnexpectedType tt), msg)
        else (Ok (tt = typetagTrue), msg\<lparr>ttReadIndex := ttReadIndex msg + 1\<rparr>))"

text \<open>
  The loop of \<open>ReadString\<close>, \<open>for i := 0; i < msg.argbuf.Len(); i++\<close>: the bound is the
  number of bytes still unread, so it shrinks while \<open>i\<close> grows. The state is \<open>i\<close>, the
  unread buffer and \<open>val\<close>; the result is \<open>val\<close> and the buffer left. \<open>ReadByte\<close> on a
  \<open>bytes.Buffer\<close> returns no error but \<open>io.EOF\<close>, so the loop returns no error.
\<close>

function ReadString_loop :: "nat \<Rightarrow> bytes \<Rightarrow> bytes \<Rightarrow> bytes \<times> bytes" where
  "ReadString_loop i buf val =
     (if i < length buf
      then (case buf of
              [] \<Rightarrow> (val, buf)
            | c # rest \<Rightarrow>
                if c = CHR 0x00 then (val, skip_padding i rest)
                else ReadString_loop (i + 1) rest (val @ [c]))
      else (val, buf))"
  by pat_completeness auto
termination
  by (relation "measure (\<lambda>(i, buf, val). length buf)") auto

declare ReadString_loop.simps [simp del]

definition ReadString :: "Message \<Rightarrow> bytes outcome \<times> Message" where
  "ReadString msg =
     (if \<not> ttReadIndex msg < length (typetag msg) then (Panic, msg)
      else let tt = typetag msg ! ttReadIndex msg in
        if tt \<noteq> typetagString then (Failed (ErrUnexpectedType tt), msg)
        else (case ReadString_loop 0 (argbuf msg) [] of
                (val, buf) \<Rightarrow>
                  (Ok val, msg\<lparr>argbuf := buf, ttReadIndex := ttReadIndex msg + 1\<rparr>)))"

text \<open>
  \<open>ReadBlob\<close>: the length is read as an \<open>int32\<close>; \<open>make([]byte, bl)\<close> panics on a negative
  length; \<open>argbuf.Read(blob)\<close> returns \<open>io.EOF\<close> on an empty buffer when \<open>blob\<close> is not empty,
  and otherwise copies the bytes there are, leaving the rest of \<open>blob\<close> zero.
\<close>

definition ReadBlob :: "Message \<Rightarrow> bytes outcome \<times> Message" where
  "ReadBlob msg =
     (if \<not> ttReadIndex msg < length (typetag msg) then (Panic, msg)
      else let tt = typetag msg ! ttReadIndex msg in
        if tt \<noteq> typetagBlob then (Failed (ErrUnexpectedType tt), msg)
        else (case binary_Read (argbuf msg) of
                (Inl err, buf) \<Rightarrow> (Failed err, msg\<lparr>argbuf := buf\<rparr>)
              | (Inr bl, buf) \<Rightarrow>
                  if sint bl < 0 then (Panic, msg\<lparr>argbuf := buf\<rparr>)
                  else let n = nat (sint bl) in
                    if buf = [] \<and> 0 < n then (Failed EOF, msg\<lparr>argbuf := buf\<rparr>)
                    else (Ok (take n buf @ replicate (n - length buf) (CHR 0x00)),
                          msg\<lparr>argbuf := drop n buf, ttReadIndex := ttReadIndex msg + 1\<rparr>)))"

subsection \<open>Typed writes\<close>

text \<open>
  \<open>Write\<close> and \<open>WriteByte\<close> on a \<open>bytes.Buffer\<close> always return a nil error, so every typed
  write returns nil; the model returns the message as the call leaves it.
\<close>

definition WriteInt32 :: "Message \<Rightarrow> 32 word \<Rightarrow> Message" where
  "WriteInt32 msg val =
     msg\<lparr>typetag := typetag msg @ [typetagInt], argbuf := argbuf msg @ PutUint32 val\<rparr>"

definition WriteFloat32 :: "Message \<Rightarrow> 32 word \<Rightarrow> Message" where
  "WriteFloat32 msg val =
     msg\<lparr>typetag := typetag msg @ [typetagFloat], argbuf := argbuf msg @ PutUint32 val\<rparr>"

definition WriteBool :: "Message \<Rightarrow> bool \<Rightarrow> Message" where
  "WriteBool msg val =
     (if val then msg\<lparr>typetag := typetag msg @ [typetagTrue]\<rparr>
      else msg\<lparr>typetag := typetag msg @ [typetagFalse]\<rparr>)"



definition TypeTags :: "Message \<Rightarrow> bytes" where
  "TypeTags msg = typetag msg"

subsection \<open>Encoding and decoding\<close>

text \<open>
  \<open>Message.bytes\<close>: the address, the type tag, the padding counted from \<open>bytesWritten\<close>, the
  arguments. The error result is always nil.
\<close>

definition bytes :: "Message \<Rightarrow> bytes" where
  "bytes msg =
     (let bytesWritten = length (address msg) + length (typetag msg)
      in address msg @ typetag msg @ padding bytesWritten @ argbuf msg)"

text \<open>
  \<open>parseArguments\<close>: the type tag is set only when a null byte is found; \<open>data[i:]\<close> panics
  when the aligned \<open>i\<close> is beyond the length of \<open>data\<close>.
\<close>

definition parseArguments :: "Message \<Rightarrow> bytes \<Rightarrow> Message outcome" where
  "parseArguments msg data =
     (if length data = 0 \<or> data ! 0 \<noteq> typetagPrefix then Failed ErrInvalidTypeTag
      else let n = length data;
               i = scan (CHR 0x00) data 0;
               msg1 = (if i < n then msg\<lparr>typetag := take i data\<rparr> else msg);
               i1 = align i
           in if n < i1 then Panic else Ok (msg1\<lparr>argbuf := drop i1 data\<rparr>))"

definition parseMessage :: "bytes \<Rightarrow> string option \<Rightarrow> Message outcome" where
  "parseMessage data sender =
     (let n = length data;
          i = scan (CHR '','') data 0;
          addr = (if i < n then take i data else []);
          msg = \<lparr>address = addr, typetag = [], argbuf = [], ttReadIndex = 1,
                 senderAddress = sender\<rparr>
      in parseArguments msg (drop i data))"

definition clone :: "Message \<Rightarrow> Message" where
  "clone msg =
     \<lparr>address = address msg, typetag = typetag msg, argbuf = argbuf msg, ttReadIndex = 1,
      senderAddress = senderAddress msg\<rparr>"

section \<open>Address patterns\<close>

text \<open>
  Modelled from the spec: \<open>getRegEx\<close> and the \<open>MatchString\<close> of the expression it returns are
  called by \<open>Message.Match\<close> but are not part of message.go. The model follows the spec's
  pattern matcher: \<open>?\<close> matches exactly one character other than \<open>/\<close>; \<open>*\<close> matches zero or
  more characters other than \<open>/\<close>; \<open>[set]\<close> is a character class with ranges \<open>a-z\<close> and
  negation by a leading \<open>!\<close> or \<open>^\<close>, where a literal \<open>]\<close> must come first; \<open>{a,b,c}\<close> is an
  alternation of literal substrings without nesting; no metacharacter crosses a \<open>/\<close>; the
  match is anchored at both ends; a pattern that does not compile is an error.
\<close>

datatype token =
    Lit char
  | AnyChar
  | AnyRun
  | CharClass bool "(char \<times> char) list"
  | Alternation "bytes list"

datatype mode = Top | ClassOpen | ClassFirst bool | ClassBody bool bytes | AltBody bytes

fun ranges :: "bytes \<Rightarrow> (char \<times> char) list" where
  "ranges (a # m # b # rest) =
     (if m = CHR ''-'' then (a, b) # ranges rest else (a, a) # ranges (m # b # rest))"
| "ranges (a # rest) = (a, a) # ranges rest"
| "ranges [] = []"

fun split_commas :: "bytes \<Rightarrow> bytes \<Rightarrow> bytes list" where
  "split_commas cur [] = [cur]"
| "split_commas cur (c # cs) =
     (if c = CHR '','' then cur # split_commas [] cs else split_commas (cur @ [c]) cs)"

fun compile :: "mode \<Rightarrow> bytes \<Rightarrow> token list option" where
  "compile Top [] = Some []"
| "compile Top (c # cs) =
     (if c = CHR ''?'' then map_option (Cons AnyChar) (compile Top cs)
      else if c = CHR ''*'' then map_option (Cons AnyRun) (compile Top cs)
      else if c = CHR ''['' then compile ClassOpen cs
      else if c = CHR ''{'' then compile (AltBody []) cs
      else if c = CHR '']'' \<or> c = CHR ''}'' then None
      else map_option (Cons (Lit c)) (compile Top cs))"
| "compile ClassOpen [] = None"
| "compile ClassOpen (c # cs) =
     (if c = CHR ''!'' \<or> c = CHR ''^'' then compile (ClassFirst True) cs
      else compile (ClassBody False [c]) cs)"
| "compile (ClassFirst neg) [] = None"
| "compile (ClassFirst neg) (c # cs) = compile (ClassBody neg [c]) cs"
| "compile (ClassBody neg body) [] = None"
| "compile (ClassBody neg body) (c # cs) =
     (if c = CHR '']'' then map_option (Cons (CharClass neg (ranges body))) (compile Top cs)
      else compile (ClassBody neg (body @ [c])) cs)"
| "compile (AltBody body) [] = None"
| "compile (AltBody body) (c # cs) =
     (if c = CHR ''}''
      then map_option (Cons (Alternation (split_commas [] body))) (compile Top cs)
      else if c = CHR ''{'' then None
      else compile (AltBody (body @ [c])) cs)"

definition getRegEx :: "bytes \<Rightarrow> error + token list" where
  "getRegEx pattern =
     (case compile Top pattern of None \<Rightarrow> Inl ErrInvalidPattern | Some exp \<Rightarrow> Inr exp)"

definition in_ranges :: "(char \<times> char) list \<Rightarrow> char \<Rightarrow> bool" where
  "in_ranges rs x =
     list_ex (\<lambda>(a, b). (of_char a :: nat) \<le> of_char x \<and> (of_char x :: nat) \<le> of_char b) rs"

fun MatchString :: "token list \<Rightarrow> bytes \<Rightarrow> bool" where
  "MatchString [] s = (s = [])"
| "MatchString (Lit c # ts) [] = False"
| "MatchString (Lit c # ts) (x # xs) = (x = c \<and> MatchString ts xs)"
| "MatchString (AnyChar # ts) [] = False"
| "MatchString (AnyChar # ts) (x # xs) = (x \<noteq> CHR ''/'' \<and> MatchString ts xs)"
| "MatchString (AnyRun # ts) [] = MatchString ts []"
| "MatchString (AnyRun # ts) (x # xs) =
     (MatchString ts (x # xs) \<or> (x \<noteq> CHR ''/'' \<and> MatchString (AnyRun # ts) xs))"
| "MatchString (CharClass neg rs # ts) [] = False"
| "MatchString (CharClass neg rs # ts) (x # xs) =
     (x \<noteq> CHR ''/'' \<and> in_ranges rs x \<noteq> neg \<and> MatchString ts xs)"
| "MatchString (Alternation alts # ts) s =
     list_ex (\<lambda>a. take (length a) s = a \<and> MatchString ts (drop (length a) s)) alts"



text \<open>
  \<open>Message.Match\<close> of message.go: the expression is compiled from the address of the
  message, and the argument \<open>address\<close> is the string that is matched against it.
\<close>

definition Match :: "Message \<Rightarrow> bytes \<Rightarrow> error + bool" where
  "Match msg addr =
     (case getRegEx (address msg) of
        Inl err \<Rightarrow> Inl err
      | Inr exp \<Rightarrow> if MatchString exp addr then Inr True else Inr False)"

section \<open>The dispatcher\<close>

text \<open>
  Modelled from the spec: \<open>Invoke\<close> calls \<open>msg.Match(address, exactMatch)\<close>, a variant of
  \<open>Match\<close> with a mode flag that is not in the source files. In exact mode the address of
  the incoming message is compared literally to the registered string, as the spec has it;
  in pattern mode the model is \<open>Message.Match\<close> of message.go. The dispatcher functions
  below take the matcher as a parameter, so what is proved of them holds for any matcher.
\<close>

definition Match_mode :: "Message \<Rightarrow> bytes \<Rightarrow> bool \<Rightarrow> error + bool" where
  "Match_mode msg addr exactMatch =
     (if exactMatch then Inr (address msg = addr) else Match msg addr)"

text \<open>
  A \<open>MessageHandler\<close> has the method \<open>Handle(msg) error\<close>. \<open>PatternMatching\<close> is a Go map
  from address to handler; \<open>for address, handler := range h\<close> visits its entries in an
  order that Go leaves open, and the map keeps no registration order. The model is the list
  of the entries in the order in which the loop visits them. A call of a handler is
  recorded as the registered address and the message.
\<close>

type_synonym MessageHandler = "Message \<Rightarrow> error option"
type_synonym PatternMatching = "(bytes \<times> MessageHandler) list"
type_synonym call = "bytes \<times> Message"
type_synonym matcher = "Message \<Rightarrow> bytes \<Rightarrow> bool \<Rightarrow> error + bool"

text \<open>
  A \<open>Packet\<close> is a message, a bundle or a value of any other type; a \<open>Bundle\<close> has a time
  tag (here the time it stands for) and its packets.
\<close>

datatype Packet = MessagePacket Message | BundlePacket Bundle | OtherPacket
  and Bundle = Bundle (Timetag: nat) (Packets: "Packet list")

fun Invoke ::
  "matcher \<Rightarrow> PatternMatching \<Rightarrow> Message \<Rightarrow> bool \<Rightarrow> error option \<times> call list" where
  "Invoke mt [] msg exactMatch = (None, [])"
| "Invoke mt ((addr, handler) # h) msg exactMatch =
     (case mt msg addr exactMatch of
        Inl err \<Rightarrow> (Some err, [])
      | Inr matched \<Rightarrow>
          if matched then (handler msg, [(addr, msg)]) else Invoke mt h msg exactMatch)"

text \<open>
  \<open>immediately\<close>: the body of the loop over \<open>b.Packets\<close> ends in \<open>return nil\<close>, after the
  error of the packet, if any, has been wrapped and returned.
\<close>

fun immediately ::
  "matcher \<Rightarrow> PatternMatching \<Rightarrow> Bundle \<Rightarrow> bool \<Rightarrow> error option \<times> call list"
  and invoke ::
  "matcher \<Rightarrow> PatternMatching \<Rightarrow> Packet \<Rightarrow> bool \<Rightarrow> error option \<times> call list" where
  "immediately mt h (Bundle tt []) exactMatch = (None, [])"
| "immediately mt h (Bundle tt (p # ps)) exactMatch =
     (case invoke mt h p exactMatch of
        (Some err, calls) \<Rightarrow> (Some (ErrInvokeBundle err), calls)
      | (None, calls) \<Rightarrow> (None, calls))"
| "invoke mt h (MessagePacket x) exactMatch = Invoke mt h x exactMatch"
| "invoke mt h (BundlePacket x) exactMatch = immediately mt h x exactMatch"
| "invoke mt h OtherPacket exactMatch = (Some ErrUnsupportedType, [])"

text \<open>
  \<open>Dispatch\<close>: \<open>now\<close> is the value of \<open>time.Now()\<close>. When the time tag is not before \<open>now\<close>
  the call waits for the difference and then does the same as when it is.
\<close>

definition Dispatch ::
  "nat \<Rightarrow> matcher \<Rightarrow> PatternMatching \<Rightarrow> Bundle \<Rightarrow> bool \<Rightarrow> error option \<times> call list" where
  "Dispatch now mt h b exactMatch =
     (if Timetag b < now then immediately mt h b exactMatch
      else immediately mt h b exactMatch)"

section \<open>Example tables and bundles\<close>

definition handled :: MessageHandler where
  "handled = (\<lambda>msg. None)"

definition two_message_bundle :: Bundle where
  "two_message_bundle =
     Bundle 1 [MessagePacket (NewMessage ''/first''), MessagePacket (NewMessage ''/second'')]"

definition two_handlers :: PatternMatching where
  "two_handlers = [(''/first'', handled), (''/second'', handled)]"


section \<open>Example messages\<close>

text \<open>A received message whose only argument has the nil tag \<open>N\<close>, before any read.\<close>

definition nil_message :: Message where
  "nil_message =
     \<lparr>address = ''/a'', typetag = '',N'', argbuf = [], ttReadIndex = 1, senderAddress = None\<rparr>"

text \<open>The message of the test scenario after its single argument has been read.\<close>

definition consumed_message :: Message where
  "consumed_message = snd (ReadInt32 (WriteInt32 (NewMessage ''/address/test'') 1122))"

section \<open>Properties of the loops\<close>

lemma padding_replicate: "padding j = replicate ((4 - j mod 4) mod 4) (CHR 0x00)"
proof (induction j rule: padding.induct)
  case (1 j)
  show ?case
  proof (cases "j mod 4 = 0")
    case True
    then show ?thesis by (simp add: padding.simps)
  next
    case False
    then have "(4 - j mod 4) mod 4 = Suc ((4 - (j + 1) mod 4) mod 4)"
      by (auto simp: mod_Suc)
    with False 1 show ?thesis by (subst padding.simps) simp
  qed
qed

lemma length_padding: "length (padding j) = (4 - j mod 4) mod 4"
  by (simp add: padding_replicate)

lemma align_eq: "align i = i + (4 - i mod 4) mod 4"
proof (induction i rule: align.induct)
  case (1 i)
  show ?case
  proof (cases "i mod 4 = 0")
    case True
    then show ?thesis by (simp add: align.simps)
  next
    case False
    then have k: "(4 - i mod 4) mod 4 = Suc ((4 - (i + 1) mod 4) mod 4)"
      by (auto simp: mod_Suc)
    from False have "align i = align (i + 1)"
      by (subst align.simps) simp
    also from False 1 have "\<dots> = (i + 1) + (4 - (i + 1) mod 4) mod 4"
      by blast
    also have "\<dots> = i + Suc ((4 - (i + 1) mod 4) mod 4)"
      by (simp only: add_Suc_right add_Suc Suc_eq_plus1 [symmetric] add_0_right)
    finally show ?thesis
      by (simp only: k)
  qed
qed


lemma scan_absent:
  "\<forall>j. i \<le> j \<and> j < length data \<longrightarrow> data ! j \<noteq> c \<Longrightarrow> i \<le> length data \<Longrightarrow>
   scan c data i = length data"
proof (induction c data i rule: scan.induct)
  case (1 c data i)
  show ?case
  proof (cases "i < length data")
    case True
    with 1 show ?thesis by (subst scan.simps) auto
  next
    case False
    with 1 show ?thesis by (subst scan.simps) simp
  qed
qed

lemma scan_not_in_set: "c \<notin> set data \<Longrightarrow> scan c data 0 = length data"
  by (rule scan_absent) auto

lemma binary_Read_error:
  "binary_Read buf = (Inl err, rest) \<Longrightarrow> err = EOF \<or> err = ErrUnexpectedEOF"
  by (auto simp: binary_Read_def split: if_splits)

lemma consumed_message_eq:
  "consumed_message =
     \<lparr>address = ''/address/test'', typetag = '',i'', argbuf = [], ttReadIndex = 2,
      senderAddress = None\<rparr>"
  unfolding consumed_message_def by code_simp

section \<open>Encoding, then decoding\<close>

text \<open>
  C1. The claim: decoding the bytes of an encoded valid message gives the message back, with
  the same arguments under the typed reads. The encoder counts its padding from the start of
  the message (address plus type tag), the decoder aligns from the start of the type tag, so
  the two agree only for some address lengths. For the message at \<open>/address/test\<close> with the
  \<open>int32\<close> argument 1122 the decoder drops the first argument byte: the decoded message
  holds three argument bytes, and \<open>ReadInt32\<close> on it returns \<open>io.ErrUnexpectedEOF\<close>, while on
  the original message it returns 1122.
\<close>

theorem roundtrip_address_test:
  "parseMessage (bytes (WriteInt32 (NewMessage ''/address/test'') 1122)) None =
     Ok \<lparr>address = ''/address/test'', typetag = '',i'',
         argbuf = [CHR 0x00, CHR 0x04, CHR 0x62], ttReadIndex = 1, senderAddress = None\<rparr> \<and>
   fst (ReadInt32 \<lparr>address = ''/address/test'', typetag = '',i'',
         argbuf = [CHR 0x00, CHR 0x04, CHR 0x62], ttReadIndex = 1, senderAddress = None\<rparr>) =
     Failed ErrUnexpectedEOF \<and>
   fst (ReadInt32 (WriteInt32 (NewMessage ''/address/test'') 1122)) = Ok 1122"
  by code_simp

section \<open>The wire form\<close>



section \<open>Strings and blobs\<close>






section \<open>Typed reads\<close>

text \<open>
  C7. For every message whose cursor is inside the type tag, a typed read whose tag is not
  the one at the cursor returns the "Unexpected type" error and the message unchanged: the
  cursor and the argument buffer are as before.
\<close>

theorem typed_read_type_mismatch:
  assumes "ttReadIndex msg < length (typetag msg)"
  shows "(typetag msg ! ttReadIndex msg \<noteq> typetagInt \<longrightarrow>
            ReadInt32 msg = (Failed (ErrUnexpectedType (typetag msg ! ttReadIndex msg)), msg)) \<and>
         (typetag msg ! ttReadIndex msg \<noteq> typetagFloat \<longrightarrow>
            ReadFloat32 msg = (Failed (ErrUnexpectedType (typetag msg ! ttReadIndex msg)), msg)) \<and>
         (typetag msg ! ttReadIndex msg \<noteq> typetagTrue \<and>
          typetag msg ! ttReadIndex msg \<noteq> typetagFalse \<longrightarrow>
            ReadBool msg = (Failed (ErrUnexpectedType (typetag msg ! ttReadIndex msg)), msg)) \<and>
         (typetag msg ! ttReadIndex msg \<noteq> typetagString \<longrightarrow>
            ReadString msg = (Failed (ErrUnexpectedType (typetag msg ! ttReadIndex msg)), msg)) \<and>
         (typetag msg ! ttReadIndex msg \<noteq> typetagBlob \<longrightarrow>
            ReadBlob msg = (Failed (ErrUnexpectedType (typetag msg ! ttReadIndex msg)), msg))"
  using assms
  by (simp add: ReadInt32_def ReadFloat32_def ReadBool_def ReadString_def ReadBlob_def Let_def)

theorem typed_read_type_mismatch_witness:
  "ttReadIndex nil_message < length (typetag nil_message) \<and>
   typetag nil_message ! ttReadIndex nil_message = CHR ''N'' \<and>
   ReadInt32 nil_message = (Failed (ErrUnexpectedType (CHR ''N'')), nil_message) \<and>
   ReadFloat32 nil_message = (Failed (ErrUnexpectedType (CHR ''N'')), nil_message) \<and>
   ReadBool nil_message = (Failed (ErrUnexpectedType (CHR ''N'')), nil_message) \<and>
   ReadString nil_message = (Failed (ErrUnexpectedType (CHR ''N'')), nil_message) \<and>
   ReadBlob nil_message = (Failed (ErrUnexpectedType (CHR ''N'')), nil_message)"
proof -
  have h: "ttReadIndex nil_message < length (typetag nil_message)"
    by (simp add: nil_message_def)
  have t: "typetag nil_message ! ttReadIndex nil_message = CHR ''N''"
    by (simp add: nil_message_def)
  show ?thesis
    using h t typed_read_type_mismatch [OF h]
    by (simp add: typetag_defs)
qed

lemma ReadInt32_no_oob: "fst (ReadInt32 msg) \<noteq> Failed ErrIndexOutOfBounds"
  by (auto simp: ReadInt32_def Let_def split: prod.splits sum.splits dest: binary_Read_error)

lemma ReadFloat32_no_oob: "fst (ReadFloat32 msg) \<noteq> Failed ErrIndexOutOfBounds"
  by (auto simp: ReadFloat32_def Let_def split: prod.splits sum.splits dest: binary_Read_error)

lemma ReadBool_no_oob: "fst (ReadBool msg) \<noteq> Failed ErrIndexOutOfBounds"
  by (auto simp: ReadBool_def Let_def)

lemma ReadString_no_oob: "fst (ReadString msg) \<noteq> Failed ErrIndexOutOfBounds"
  by (auto simp: ReadString_def Let_def split: prod.splits)

lemma ReadBlob_no_oob: "fst (ReadBlob msg) \<noteq> Failed ErrIndexOutOfBounds"
  by (auto simp: ReadBlob_def Let_def split: prod.splits sum.splits dest: binary_Read_error)

lemma parseArguments_no_oob: "parseArguments msg data \<noteq> Failed ErrIndexOutOfBounds"
  by (auto simp: parseArguments_def Let_def)

lemma parseMessage_no_oob: "parseMessage data sender \<noteq> Failed ErrIndexOutOfBounds"
  by (simp add: parseMessage_def Let_def parseArguments_no_oob)

text \<open>
  C10. The typed reads index the type tag at the cursor without a bounds check: when the
  cursor equals the length of the type tag (every argument has been consumed), each of the
  five reads panics. No typed read and no parse returns \<open>ErrIndexOutOfBounds\<close>, and the
  typed writes and \<open>bytes\<close> return no error at all.
\<close>

theorem read_past_end_panics:
  "(ttReadIndex msg = length (typetag msg) \<longrightarrow>
      fst (ReadInt32 msg) = Panic \<and> fst (ReadFloat32 msg) = Panic \<and>
      fst (ReadBool msg) = Panic \<and> fst (ReadString msg) = Panic \<and>
      fst (ReadBlob msg) = Panic) \<and>
   fst (ReadInt32 m) \<noteq> Failed ErrIndexOutOfBounds \<and>
   fst (ReadFloat32 m) \<noteq> Failed ErrIndexOutOfBounds \<and>
   fst (ReadBool m) \<noteq> Failed ErrIndexOutOfBounds \<and>
   fst (ReadString m) \<noteq> Failed ErrIndexOutOfBounds \<and>
   fst (ReadBlob m) \<noteq> Failed ErrIndexOutOfBounds \<and>
   parseArguments m data \<noteq> Failed ErrIndexOutOfBounds \<and>
   parseMessage data sender \<noteq> Failed ErrIndexOutOfBounds"
proof -
  have "ttReadIndex msg = length (typetag msg) \<longrightarrow>
      fst (ReadInt32 msg) = Panic \<and> fst (ReadFloat32 msg) = Panic \<and>
      fst (ReadBool msg) = Panic \<and> fst (ReadString msg) = Panic \<and>
      fst (ReadBlob msg) = Panic"
    by (simp add: ReadInt32_def ReadFloat32_def ReadBool_def ReadString_def ReadBlob_def)
  then show ?thesis
    using ReadInt32_no_oob ReadFloat32_no_oob ReadBool_no_oob ReadString_no_oob ReadBlob_no_oob
      parseArguments_no_oob parseMessage_no_oob
    by blast
qed

theorem read_past_end_panics_witness:
  "ttReadIndex consumed_message = length (typetag consumed_message) \<and>
   fst (ReadInt32 consumed_message) = Panic \<and> fst (ReadFloat32 consumed_message) = Panic \<and>
   fst (ReadBool consumed_message) = Panic \<and> fst (ReadString consumed_message) = Panic \<and>
   fst (ReadBlob consumed_message) = Panic"
proof -
  have h: "ttReadIndex consumed_message = length (typetag consumed_message)"
    by (simp add: consumed_message_eq)
  show ?thesis
    using h read_past_end_panics [of consumed_message] by blast
qed

section \<open>Decoding errors\<close>

text \<open>
  C9. \<open>parseArguments\<close> returns \<open>ErrInvalidTypeTag\<close> when its data, the type-tag portion,
  is empty or does not start with a comma; and \<open>parseMessage\<close> on data without any comma
  returns \<open>ErrInvalidTypeTag\<close>, and so no message.
\<close>

theorem parse_invalid_type_tag:
  "(length data = 0 \<or> data ! 0 \<noteq> typetagPrefix \<longrightarrow>
      parseArguments msg data = Failed ErrInvalidTypeTag) \<and>
   (CHR '','' \<notin> set input \<longrightarrow> parseMessage input sender = Failed ErrInvalidTypeTag)"
  by (simp add: parseArguments_def parseMessage_def scan_not_in_set)

theorem parse_invalid_type_tag_witness:
  "''abc'' ! 0 \<noteq> typetagPrefix \<and>
   parseArguments (NewMessage ''/a'') ''abc'' = Failed ErrInvalidTypeTag \<and>
   CHR '','' \<notin> set ''/address/test'' \<and>
   parseMessage ''/address/test'' None = Failed ErrInvalidTypeTag"
  using parse_invalid_type_tag [of "''abc''" "NewMessage ''/a''" "''/address/test''" None]
  by (simp add: typetagPrefix_def)

section \<open>Dispatching\<close>

text \<open>
  C2. The claim: dispatching a bundle whose time has come invokes the dispatcher on every
  packet of the bundle, in order. The loop of \<open>immediately\<close> returns at the end of its
  first iteration, so a bundle is dispatched as if it held its first packet only: for the
  bundle of the messages \<open>/first\<close> and \<open>/second\<close>, with a handler registered for each, the
  one call is that of the handler of \<open>/first\<close>, although the second message sent alone
  reaches its handler.
\<close>

theorem bundle_first_packet_only:
  "immediately mt h (Bundle tt (p # ps)) exactMatch =
     immediately mt h (Bundle tt [p]) exactMatch \<and>
   Dispatch now mt h (Bundle tt (p # ps)) exactMatch =
     Dispatch now mt h (Bundle tt [p]) exactMatch \<and>
   Dispatch 5 Match_mode two_handlers two_message_bundle True =
     (None, [(''/first'', NewMessage ''/first'')]) \<and>
   invoke Match_mode two_handlers (MessagePacket (NewMessage ''/second'')) True =
     (None, [(''/second'', NewMessage ''/second'')])"
proof -
  have a: "Dispatch 5 Match_mode two_handlers two_message_bundle True =
     (None, [(''/first'', NewMessage ''/first'')])"
    by (simp add: Dispatch_def two_handlers_def two_message_bundle_def Match_mode_def
        NewMessage_def handled_def)
  have b: "invoke Match_mode two_handlers (MessagePacket (NewMessage ''/second'')) True =
     (None, [(''/second'', NewMessage ''/second'')])"
    by (simp add: two_handlers_def Match_mode_def NewMessage_def handled_def)
  show ?thesis
    using a b by (simp add: Dispatch_def)
qed












section \<open>Which string is the pattern\<close>









end
